theory Spec2Isabelle
  imports Main "HOL-Library.Sublist"
begin

section \<open>VantaVault service worker: constants\<close>

text \<open>
  The names of the cache partitions (\<^verbatim>\<open>CACHE_NAME\<close>, \<^verbatim>\<open>STATIC_CACHE\<close>,
  \<^verbatim>\<open>DYNAMIC_CACHE\<close>, \<^verbatim>\<open>MEDIA_CACHE\<close>) and the install manifest
  \<^verbatim>\<open>STATIC_ASSETS\<close>, as the head of \<^verbatim>\<open>service-worker.js\<close> declares them.
\<close>

definition CACHE_NAME :: string where
  "CACHE_NAME = ''vantavault-v2.0''"

definition STATIC_CACHE :: string where
  "STATIC_CACHE = ''vantavault-static-v2.0''"

definition DYNAMIC_CACHE :: string where
  "DYNAMIC_CACHE = ''vantavault-dynamic-v2.0''"

definition MEDIA_CACHE :: string where
  "MEDIA_CACHE = ''vantavault-media-v2.0''"

definition STATIC_ASSETS :: "string list" where
  "STATIC_ASSETS =
     [''/'',
      ''/static/css/main.css'',
      ''/static/css/animations.css'',
      ''/static/css/gallery.css'',
      ''/static/js/app.js'',
      ''/static/js/auth.js'',
      ''/static/js/gallery.js'',
      ''/manifest.json'',
      ''/offline'',
      ''/static/icons/icon-192.svg'',
      ''/static/icons/icon-512.svg'']"

section \<open>Requests, responses and the host's cache storage\<close>

text \<open>
  A request carries what the worker reads of it: \<^verbatim>\<open>method\<close> (the field
  \<open>req_method\<close>), \<^verbatim>\<open>mode\<close>, \<^verbatim>\<open>destination\<close> and its URL. The URL is kept in the three parts that
  \<^verbatim>\<open>new URL(event.request.url)\<close> separates, so that \<^verbatim>\<open>url.pathname\<close> is a field and
  \<^verbatim>\<open>event.request.url\<close> is their concatenation.
\<close>

record request =
  req_method :: string
  origin :: string
  pathname :: string
  search :: string
  mode :: string
  destination :: string

definition request_url :: "request \<Rightarrow> string" where
  "request_url req = origin req @ pathname req @ search req"

text \<open>
  A response body is either plain text or the text that \<^verbatim>\<open>JSON.stringify\<close> yields for a
  JSON value; the value is kept, not its rendering.
\<close>

datatype json = JString string | JBool bool | JObject "(string \<times> json) list"

datatype body = Text string | Stringified json

record response =
  status :: nat
  headers :: "(string \<times> string) list"
  body :: body

text \<open>\<^verbatim>\<open>Headers.get\<close> compares header names without regard to ASCII case.\<close>

definition to_lower :: "char \<Rightarrow> char" where
  "to_lower c =
     (case map_of (zip ''ABCDEFGHIJKLMNOPQRSTUVWXYZ'' ''abcdefghijklmnopqrstuvwxyz'') c of
        Some l \<Rightarrow> l
      | None \<Rightarrow> c)"

definition headers_get :: "(string \<times> string) list \<Rightarrow> string \<Rightarrow> string option" where
  "headers_get hs name =
     map_of (map (\<lambda>(k, v). (map to_lower k, v)) hs) (map to_lower name)"

text \<open>
  The host's Cache API. A cache is an ordered list of entries keyed by request URL (all
  requests the worker caches are GET requests; \<^verbatim>\<open>Vary\<close> negotiation is not modelled);
  the cache storage is the list of named caches in creation order, which is the order
  \<^verbatim>\<open>caches.keys()\<close> reports and \<^verbatim>\<open>caches.match\<close> searches. \<^verbatim>\<open>put\<close> drops the
  entries under the same key and appends the new one; \<^verbatim>\<open>caches.open\<close> creates a
  cache that does not exist yet.
\<close>

type_synonym cache = "(string \<times> response) list"

type_synonym cache_storage = "(string \<times> cache) list"

definition cache_match :: "cache \<Rightarrow> string \<Rightarrow> response option" where
  "cache_match c u = map_of c u"

definition cache_keys :: "cache \<Rightarrow> string list" where
  "cache_keys c = map fst c"

definition cache_delete :: "cache \<Rightarrow> string \<Rightarrow> cache" where
  "cache_delete c u = filter (\<lambda>e. fst e \<noteq> u) c"

definition cache_put :: "cache \<Rightarrow> string \<Rightarrow> response \<Rightarrow> cache" where
  "cache_put c u r = cache_delete c u @ [(u, r)]"

definition caches_keys :: "cache_storage \<Rightarrow> string list" where
  "caches_keys cs = map fst cs"

definition caches_delete :: "cache_storage \<Rightarrow> string \<Rightarrow> cache_storage" where
  "caches_delete cs name = filter (\<lambda>e. fst e \<noteq> name) cs"

definition caches_open :: "cache_storage \<Rightarrow> string \<Rightarrow> cache_storage \<times> cache" where
  "caches_open cs name =
     (case map_of cs name of
        Some c \<Rightarrow> (cs, c)
      | None \<Rightarrow> (cs @ [(name, [])], []))"

text \<open>The cache called \<open>name\<close>, empty when the storage has none of that name.\<close>

definition partition_of :: "cache_storage \<Rightarrow> string \<Rightarrow> cache" where
  "partition_of cs name = (case map_of cs name of Some c \<Rightarrow> c | None \<Rightarrow> [])"

text \<open>Writing a cache object back: the first cache of that name is replaced.\<close>

fun caches_store :: "cache_storage \<Rightarrow> string \<Rightarrow> cache \<Rightarrow> cache_storage" where
  "caches_store [] name c = [(name, c)]"
| "caches_store ((n, c0) # cs) name c =
     (if n = name then (n, c) # cs else (n, c0) # caches_store cs name c)"

fun caches_match :: "cache_storage \<Rightarrow> string \<Rightarrow> response option" where
  "caches_match [] u = None"
| "caches_match ((n, c) # cs) u =
     (case cache_match c u of
        Some r \<Rightarrow> Some r
      | None \<Rightarrow> caches_match cs u)"

section \<open>Effects of a handler\<close>

text \<open>
  A fetch handler settles the promise it hands to \<^verbatim>\<open>event.respondWith\<close> and may start
  work that the promise does not wait for: every cache write of the worker has the shape
  \<^verbatim>\<open>caches.open(NAME).then(cache => { cache.put(request, copy); })\<close> with the
  resulting promise dropped. Such a write is a detached task; it is applied to the storage
  when it runs, after the handler has returned its response.
\<close>

datatype task = OpenPut string string response

datatype effect =
    Fetch string
  | CachesMatch string
  | ConsoleLog string
  | ConsoleError string
  | SkipWaiting
  | ClientsClaim

record outcome =
  responded :: "response option"
  detached :: "task list"
  effects :: "effect list"

fun run_task :: "cache_storage \<Rightarrow> task \<Rightarrow> cache_storage" where
  "run_task cs (OpenPut name u r) =
     (case caches_open cs name of
        (cs', c) \<Rightarrow> caches_store cs' name (cache_put c u r))"

definition settle :: "cache_storage \<Rightarrow> task list \<Rightarrow> cache_storage" where
  "settle cs ts = foldl run_task cs ts"

fun reads_cache :: "effect \<Rightarrow> bool" where
  "reads_cache (CachesMatch u) = True"
| "reads_cache e = False"

fun is_fetch :: "effect \<Rightarrow> bool" where
  "is_fetch (Fetch u) = True"
| "is_fetch e = False"

text \<open>
  What the worker takes from its host: the origin its relative URLs resolve against,
  the network (\<open>None\<close> when \<^verbatim>\<open>fetch\<close> rejects), and the clock reading
  \<^verbatim>\<open>new Date().toISOString()\<close>.
\<close>

record host =
  self_origin :: string
  network :: "string \<Rightarrow> response option"
  now_iso :: string

section \<open>The fetch handlers\<close>

definition handleApiRequest :: "host \<Rightarrow> request \<Rightarrow> outcome" where
  "handleApiRequest h req =
     (case network h (request_url req) of
        Some resp \<Rightarrow>
          \<lparr>responded = Some resp, detached = [], effects = [Fetch (request_url req)]\<rparr>
      | None \<Rightarrow>
          \<lparr>responded = Some
             \<lparr>status = 503,
              headers = [(''Content-Type'', ''application/json''),
                         (''Cache-Control'', ''no-store'')],
              body = Stringified (JObject
                [(''error'', JString ''You are offline''),
                 (''offline'', JBool True),
                 (''timestamp'', JString (now_iso h))])\<rparr>,
           detached = [],
           effects = [Fetch (request_url req),
                      ConsoleError ''[Service Worker] API request failed:'']\<rparr>)"

definition handleMediaRequest :: "host \<Rightarrow> cache_storage \<Rightarrow> request \<Rightarrow> outcome" where
  "handleMediaRequest h cs req =
     (case caches_match cs (request_url req) of
        Some cachedResponse \<Rightarrow>
          \<lparr>responded = Some cachedResponse, detached = [],
           effects = [CachesMatch (request_url req)]\<rparr>
      | None \<Rightarrow>
          (case network h (request_url req) of
             Some resp \<Rightarrow>
               \<lparr>responded = Some resp,
                detached = (if status resp = 200
                            then [OpenPut MEDIA_CACHE (request_url req) resp] else []),
                effects = [CachesMatch (request_url req), Fetch (request_url req)]\<rparr>
           | None \<Rightarrow>
               (if destination req = ''image''
                then \<lparr>responded =
                        caches_match cs (self_origin h @ ''/static/icons/icon-192.svg''),
                      detached = [],
                      effects = [CachesMatch (request_url req), Fetch (request_url req),
                                 ConsoleError ''[Service Worker] Media fetch failed:'',
                                 CachesMatch (self_origin h @ ''/static/icons/icon-192.svg'')]\<rparr>
                else \<lparr>responded = Some
                        \<lparr>status = 503, headers = [(''Content-Type'', ''text/plain'')],
                         body = Text ''Media unavailable offline''\<rparr>,
                      detached = [],
                      effects = [CachesMatch (request_url req), Fetch (request_url req),
                                 ConsoleError ''[Service Worker] Media fetch failed:'']\<rparr>)))"

definition handlePageRequest :: "host \<Rightarrow> cache_storage \<Rightarrow> request \<Rightarrow> outcome" where
  "handlePageRequest h cs req =
     (case network h (request_url req) of
        Some resp \<Rightarrow>
          \<lparr>responded = Some resp,
           detached = [OpenPut DYNAMIC_CACHE (request_url req) resp],
           effects = [Fetch (request_url req)]\<rparr>
      | None \<Rightarrow>
          (case caches_match cs (request_url req) of
             Some cachedResponse \<Rightarrow>
               \<lparr>responded = Some cachedResponse, detached = [],
                effects = [Fetch (request_url req),
                           ConsoleError ''[Service Worker] Page fetch failed:'',
                           CachesMatch (request_url req)]\<rparr>
           | None \<Rightarrow>
               \<lparr>responded = caches_match cs (self_origin h @ ''/offline''),
                detached = [],
                effects = [Fetch (request_url req),
                           ConsoleError ''[Service Worker] Page fetch failed:'',
                           CachesMatch (request_url req),
                           CachesMatch (self_origin h @ ''/offline'')]\<rparr>))"

text \<open>
  \<^verbatim>\<open>fetchAndCache\<close> returns a promise: \<open>responded = None\<close> stands for its rejection
  (the fetch failed), which the caller may catch.
\<close>

definition fetchAndCache :: "host \<Rightarrow> request \<Rightarrow> outcome" where
  "fetchAndCache h req =
     (case network h (request_url req) of
        None \<Rightarrow> \<lparr>responded = None, detached = [], effects = [Fetch (request_url req)]\<rparr>
      | Some resp \<Rightarrow>
          (if status resp \<noteq> 200
           then \<lparr>responded = Some resp, detached = [], effects = [Fetch (request_url req)]\<rparr>
           else \<lparr>responded = Some resp,
                 detached = [OpenPut DYNAMIC_CACHE (request_url req) resp],
                 effects = [Fetch (request_url req)]\<rparr>))"

definition handleStaticRequest :: "host \<Rightarrow> cache_storage \<Rightarrow> request \<Rightarrow> outcome" where
  "handleStaticRequest h cs req =
     (case caches_match cs (request_url req) of
        Some cachedResponse \<Rightarrow>
          \<lparr>responded = Some cachedResponse,
           detached = detached (fetchAndCache h req),
           effects = CachesMatch (request_url req) # effects (fetchAndCache h req)\<rparr>
      | None \<Rightarrow>
          (case responded (fetchAndCache h req) of
             Some resp \<Rightarrow>
               \<lparr>responded = Some resp,
                detached = detached (fetchAndCache h req),
                effects = CachesMatch (request_url req) # effects (fetchAndCache h req)\<rparr>
           | None \<Rightarrow>
               \<lparr>responded = Some
                  \<lparr>status = 503, headers = [(''Content-Type'', ''text/plain'')],
                   body = Text ''Offline''\<rparr>,
                detached = detached (fetchAndCache h req),
                effects = CachesMatch (request_url req) # effects (fetchAndCache h req)\<rparr>))"

text \<open>
  The \<^verbatim>\<open>fetch\<close> listener, with its tests in the order of the source. \<open>None\<close>: the
  listener returns without calling \<^verbatim>\<open>respondWith\<close>, and the host handles the request.
\<close>

definition fetch_listener :: "host \<Rightarrow> cache_storage \<Rightarrow> request \<Rightarrow> outcome option" where
  "fetch_listener h cs req =
     (if req_method req \<noteq> ''GET'' \<or> prefix ''chrome-extension://'' (request_url req)
      then None
      else if prefix ''/api/'' (pathname req) then Some (handleApiRequest h req)
      else if prefix ''/api/media/'' (pathname req) then Some (handleMediaRequest h cs req)
      else if mode req = ''navigate'' then Some (handlePageRequest h cs req)
      else Some (handleStaticRequest h cs req))"


text \<open>
  The worker between events: the cache storage and the detached tasks that have been
  started and have not run yet. \<open>respond\<close> is one fetch event up to the moment the
  response is settled: the tasks the handler started join the pending ones, and the
  storage is as it was. \<open>run_pending\<close> lets the pending tasks run, in the order in
  which they were started.
\<close>

record worker =
  store :: cache_storage
  pending :: "task list"

definition respond :: "host \<Rightarrow> worker \<Rightarrow> request \<Rightarrow> outcome option \<times> worker" where
  "respond h w req =
     (case fetch_listener h (store w) req of
        None \<Rightarrow> (None, w)
      | Some out \<Rightarrow> (Some out, w\<lparr>pending := pending w @ detached out\<rparr>))"

definition run_pending :: "worker \<Rightarrow> worker" where
  "run_pending w = \<lparr>store = settle (store w) (pending w), pending = []\<rparr>"

section \<open>Install, activate and the control command that clears the caches\<close>

text \<open>
  A lifecycle listener hands one promise to \<^verbatim>\<open>event.waitUntil\<close>. The host fails an
  install attempt exactly when a promise handed to \<^verbatim>\<open>waitUntil\<close> is rejected; a
  fulfilled promise lets the attempt go on. \<open>waitUntil\<close> is how that promise settles,
  \<open>storage\<close> the cache storage afterwards, \<open>events\<close> what the listener logged and
  asked of the host.
\<close>

datatype settled = Fulfilled | Rejected

record lifecycle =
  waitUntil :: settled
  storage :: cache_storage
  events :: "effect list"

text \<open>
  \<^verbatim>\<open>cache.addAll(paths)\<close> of the host fetches every path, resolved against the worker's
  origin, and is all or nothing: when a fetch fails or a response is not in the range
  200 to 299 it rejects and writes no entry; otherwise it puts every response.
\<close>

fun fetch_all :: "host \<Rightarrow> string list \<Rightarrow> (string \<times> response) list option" where
  "fetch_all h [] = Some []"
| "fetch_all h (p # ps) =
     (case network h (self_origin h @ p) of
        None \<Rightarrow> None
      | Some resp \<Rightarrow>
          (if 200 \<le> status resp \<and> status resp \<le> 299
           then (case fetch_all h ps of
                   None \<Rightarrow> None
                 | Some rs \<Rightarrow> Some ((self_origin h @ p, resp) # rs))
           else None))"

definition cache_addAll :: "host \<Rightarrow> cache \<Rightarrow> string list \<Rightarrow> cache option" where
  "cache_addAll h c paths =
     (case fetch_all h paths of
        None \<Rightarrow> None
      | Some rs \<Rightarrow> Some (foldl (\<lambda>c' (u, r). cache_put c' u r) c rs))"

text \<open>
  The first \<^verbatim>\<open>install\<close> listener: open the static cache, add the manifest, then
  \<^verbatim>\<open>skipWaiting\<close>; the \<^verbatim>\<open>.catch\<close> at the end of the chain logs the error and returns
  normally, so the chain it ends is fulfilled on both paths.
\<close>

definition install_listener :: "host \<Rightarrow> cache_storage \<Rightarrow> lifecycle" where
  "install_listener h cs =
     (case caches_open cs STATIC_CACHE of
        (cs', c) \<Rightarrow>
          (case cache_addAll h c STATIC_ASSETS of
             Some c' \<Rightarrow>
               \<lparr>waitUntil = Fulfilled,
                storage = caches_store cs' STATIC_CACHE c',
                events = [ConsoleLog ''[Service Worker] Installing VantaVault v2.0...'',
                          ConsoleLog ''[Service Worker] Caching static assets'']
                         @ map (\<lambda>p. Fetch (self_origin h @ p)) STATIC_ASSETS
                         @ [ConsoleLog ''[Service Worker] All static assets cached'',
                            SkipWaiting]\<rparr>
           | None \<Rightarrow>
               \<lparr>waitUntil = Fulfilled,
                storage = cs',
                events = [ConsoleLog ''[Service Worker] Installing VantaVault v2.0...'',
                          ConsoleLog ''[Service Worker] Caching static assets'']
                         @ map (\<lambda>p. Fetch (self_origin h @ p)) STATIC_ASSETS
                         @ [ConsoleError ''[Service Worker] Cache installation failed:'']\<rparr>))"

text \<open>
  The second \<^verbatim>\<open>install\<close> listener stores the offline page under \<^verbatim>\<open>/offline\<close> in the
  static cache. The page text \<^verbatim>\<open>OFFLINE_HTML\<close> is a parameter here: nothing depends on
  what the document says.
\<close>

definition offline_response :: "string \<Rightarrow> response" where
  "offline_response OFFLINE_HTML =
     \<lparr>status = 200,
      headers = [(''Content-Type'', ''text/html''), (''Cache-Control'', ''no-cache'')],
      body = Text OFFLINE_HTML\<rparr>"

definition install_offline_listener :: "string \<Rightarrow> host \<Rightarrow> cache_storage \<Rightarrow> lifecycle" where
  "install_offline_listener OFFLINE_HTML h cs =
     (case caches_open cs STATIC_CACHE of
        (cs', c) \<Rightarrow>
          \<lparr>waitUntil = Fulfilled,
           storage = caches_store cs' STATIC_CACHE
             (cache_put c (self_origin h @ ''/offline'') (offline_response OFFLINE_HTML)),
           events = []\<rparr>)"

definition currentCaches :: "string list" where
  "currentCaches = [CACHE_NAME, STATIC_CACHE, DYNAMIC_CACHE, MEDIA_CACHE]"

definition activate_listener :: "cache_storage \<Rightarrow> lifecycle" where
  "activate_listener cs =
     (let cachesToDelete =
            filter (\<lambda>cacheName. cacheName \<notin> set currentCaches) (caches_keys cs)
      in \<lparr>waitUntil = Fulfilled,
          storage = foldl caches_delete cs cachesToDelete,
          events = ConsoleLog ''[Service Worker] Activating...''
                   # map (\<lambda>cacheName.
                            ConsoleLog (''[Service Worker] Deleting old cache: '' @ cacheName))
                       cachesToDelete
                   @ [ConsoleLog ''[Service Worker] Claiming clients'', ClientsClaim]\<rparr>)"

definition clearCache :: "cache_storage \<Rightarrow> cache_storage" where
  "clearCache cs = foldl caches_delete cs (caches_keys cs)"

section \<open>The periodic cache cleanup\<close>

text \<open>
  \<^verbatim>\<open>new Date(dateHeader).getTime()\<close> is the host's date parser, taken as the
  parameter \<open>parseDate\<close>: milliseconds since the epoch, or \<open>None\<close> for the
  \<^verbatim>\<open>NaN\<close> of a text that is no date (every comparison with \<^verbatim>\<open>NaN\<close> is false).
  \<^verbatim>\<open>if (dateHeader)\<close> is false for a missing header and for the empty text. The loop
  runs over the keys read before it starts.
\<close>

fun cleanup_loop ::
  "(string \<Rightarrow> int option) \<Rightarrow> int \<Rightarrow> string list \<Rightarrow> cache \<Rightarrow> cache" where
  "cleanup_loop parseDate threshold [] c = c"
| "cleanup_loop parseDate threshold (request # requests) c =
     cleanup_loop parseDate threshold requests
       (case cache_match c request of
          None \<Rightarrow> c
        | Some resp \<Rightarrow>
            (case headers_get (headers resp) ''date'' of
               None \<Rightarrow> c
             | Some dateHeader \<Rightarrow>
                 (if dateHeader = [] then c
                  else (case parseDate dateHeader of
                          None \<Rightarrow> c
                        | Some responseDate \<Rightarrow>
                            (if responseDate < threshold
                             then cache_delete c request else c)))))"

text \<open>
  \<^verbatim>\<open>cleanupCache\<close> reads the clock twice: \<open>now1\<close> before the pass over the dynamic
  cache, \<open>now2\<close> before the pass over the media cache.
\<close>

definition cleanupCache ::
  "(string \<Rightarrow> int option) \<Rightarrow> int \<Rightarrow> int \<Rightarrow> cache_storage \<Rightarrow> lifecycle" where
  "cleanupCache parseDate now1 now2 cs =
     (case caches_open cs DYNAMIC_CACHE of
        (cs1, cache) \<Rightarrow>
          (let oneWeekAgo = now1 - (7 * 24 * 60 * 60 * 1000);
               cs2 = caches_store cs1 DYNAMIC_CACHE
                       (cleanup_loop parseDate oneWeekAgo (cache_keys cache) cache)
           in (case caches_open cs2 MEDIA_CACHE of
                 (cs3, mediaCache) \<Rightarrow>
                   (let oneMonthAgo = now2 - (30 * 24 * 60 * 60 * 1000)
                    in \<lparr>waitUntil = Fulfilled,
                        storage = caches_store cs3 MEDIA_CACHE
                          (cleanup_loop parseDate oneMonthAgo
                             (cache_keys mediaCache) mediaCache),
                        events =
                          [ConsoleLog ''[Service Worker] Running periodic cache cleanup'',
                           ConsoleLog ''[Service Worker] Cache cleanup completed'']\<rparr>))))"

text \<open>
  The claim's reading of an entry that is older than a threshold: its response has a
  \<^verbatim>\<open>date\<close> header that is not empty, the header is a date, and the date lies
  before the threshold.
\<close>

definition older_than :: "(string \<Rightarrow> int option) \<Rightarrow> int \<Rightarrow> response \<Rightarrow> bool" where
  "older_than parseDate threshold resp =
     (case headers_get (headers resp) ''date'' of
        None \<Rightarrow> False
      | Some dateHeader \<Rightarrow>
          dateHeader \<noteq> [] \<and>
          (case parseDate dateHeader of
             None \<Rightarrow> False
           | Some responseDate \<Rightarrow> responseDate < threshold))"

section \<open>Background sync\<close>

text \<open>
  The worker's messages to its clients, and \<^verbatim>\<open>sendMessageToClient\<close>, which posts a
  message to every client \<^verbatim>\<open>clients.matchAll()\<close> reports. Of a pending upload the
  worker reads \<^verbatim>\<open>id\<close>, of a pending setting change \<^verbatim>\<open>id\<close> and \<^verbatim>\<open>key\<close>.
\<close>

datatype message =
    UPLOAD_SYNC_SUCCESS string
  | UPLOAD_SYNC_FAILED string string

record pending_upload =
  upload_id :: string

record setting_change =
  change_id :: string
  change_key :: string

record sync_state =
  posted :: "(nat \<times> message) list"
  console :: "effect list"

definition sendMessageToClient :: "nat list \<Rightarrow> message \<Rightarrow> sync_state \<Rightarrow> sync_state" where
  "sendMessageToClient clients m s = s\<lparr>posted := posted s @ map (\<lambda>client. (client, m)) clients\<rparr>"

definition console_add :: "effect \<Rightarrow> sync_state \<Rightarrow> sync_state" where
  "console_add e s = s\<lparr>console := console s @ [e]\<rparr>"

text \<open>
  The queue helpers, as the source has them: placeholders. \<^verbatim>\<open>getPendingUploads\<close> and
  \<^verbatim>\<open>getOfflineSettings\<close> return the empty array; \<^verbatim>\<open>retryUpload\<close>,
  \<^verbatim>\<open>removePendingUpload\<close>, \<^verbatim>\<open>syncSettingChange\<close> and \<^verbatim>\<open>removeOfflineSetting\<close>
  return a resolved promise and change nothing. For an awaited promise \<open>None\<close> says that
  it resolves, \<open>Some text\<close> that it rejects with an error whose \<^verbatim>\<open>message\<close> is
  \<open>text\<close>.
\<close>

definition getPendingUploads :: "pending_upload list" where
  "getPendingUploads = []"

definition retryUpload :: "pending_upload \<Rightarrow> string option" where
  "retryUpload upload = None"

definition removePendingUpload :: "string \<Rightarrow> string option" where
  "removePendingUpload i = None"

definition getOfflineSettings :: "setting_change list" where
  "getOfflineSettings = []"

definition syncSettingChange :: "setting_change \<Rightarrow> string option" where
  "syncSettingChange change = None"

definition removeOfflineSetting :: "string \<Rightarrow> string option" where
  "removeOfflineSetting i = None"

text \<open>
  The body of the \<^verbatim>\<open>for\<close> loop of \<^verbatim>\<open>syncPendingUploads\<close>: the two awaits of its
  \<^verbatim>\<open>try\<close> block in their order, either of which leads to the \<^verbatim>\<open>catch\<close> block when it
  rejects.
\<close>

definition upload_sync_failed :: "nat list \<Rightarrow> pending_upload \<Rightarrow> string \<Rightarrow> sync_state \<Rightarrow> sync_state" where
  "upload_sync_failed clients upload error_message s =
     sendMessageToClient clients (UPLOAD_SYNC_FAILED (upload_id upload) error_message)
       (console_add
         (ConsoleError (''[Service Worker] Upload sync failed: '' @ upload_id upload)) s)"

definition sync_upload :: "nat list \<Rightarrow> pending_upload \<Rightarrow> sync_state \<Rightarrow> sync_state" where
  "sync_upload clients upload s =
     (case retryUpload upload of
        Some error_message \<Rightarrow> upload_sync_failed clients upload error_message s
      | None \<Rightarrow>
          (case removePendingUpload (upload_id upload) of
             Some error_message \<Rightarrow> upload_sync_failed clients upload error_message s
           | None \<Rightarrow>
               sendMessageToClient clients (UPLOAD_SYNC_SUCCESS (upload_id upload))
                 (console_add
                   (ConsoleLog (''[Service Worker] Upload synced: '' @ upload_id upload)) s)))"

definition syncPendingUploads :: "nat list \<Rightarrow> sync_state \<Rightarrow> sync_state" where
  "syncPendingUploads clients s =
     foldl (\<lambda>s' upload. sync_upload clients upload s')
       (console_add (ConsoleLog ''[Service Worker] Syncing pending uploads...'') s)
       getPendingUploads"

definition sync_setting :: "setting_change \<Rightarrow> sync_state \<Rightarrow> sync_state" where
  "sync_setting change s =
     (case syncSettingChange change of
        Some error_message \<Rightarrow>
          console_add
            (ConsoleError (''[Service Worker] Setting sync failed: '' @ change_key change)) s
      | None \<Rightarrow>
          (case removeOfflineSetting (change_id change) of
             Some error_message \<Rightarrow>
               console_add
                 (ConsoleError (''[Service Worker] Setting sync failed: '' @ change_key change))
                 s
           | None \<Rightarrow>
               console_add
                 (ConsoleLog (''[Service Worker] Setting synced: '' @ change_key change)) s))"

definition syncSettings :: "sync_state \<Rightarrow> sync_state" where
  "syncSettings s =
     foldl (\<lambda>s' change. sync_setting change s')
       (console_add (ConsoleLog ''[Service Worker] Syncing settings...'') s)
       getOfflineSettings"

text \<open>The \<^verbatim>\<open>sync\<close> listener dispatches on the tag of the event.\<close>

definition sync_listener :: "nat list \<Rightarrow> string \<Rightarrow> sync_state \<Rightarrow> sync_state" where
  "sync_listener clients tag s =
     (if tag = ''sync-uploads''
      then syncPendingUploads clients
             (console_add (ConsoleLog (''[Service Worker] Background sync: '' @ tag)) s)
      else if tag = ''sync-settings''
      then syncSettings
             (console_add (ConsoleLog (''[Service Worker] Background sync: '' @ tag)) s)
      else console_add (ConsoleLog (''[Service Worker] Background sync: '' @ tag)) s)"

section \<open>The gallery's upload queue\<close>

text \<open>
  A \<^verbatim>\<open>File\<close> as \<^verbatim>\<open>handleFileSelection\<close> reads it (\<^verbatim>\<open>name\<close>, \<^verbatim>\<open>type\<close>,
  \<^verbatim>\<open>size\<close> in bytes), an item of \<^verbatim>\<open>uploadQueue\<close> (\<^verbatim>\<open>file\<close>, \<^verbatim>\<open>progress\<close>,
  \<^verbatim>\<open>status\<close>), and the part of the \<^verbatim>\<open>GalleryManager\<close> the handler changes: the
  queue, the notifications shown (text and kind), and the number of times the queue's
  display was redrawn.
\<close>

record file_info =
  file_name :: string
  file_type :: string
  file_size :: nat

record queue_item =
  item_file :: file_info
  item_progress :: nat
  item_status :: string

record gallery =
  uploadQueue :: "queue_item list"
  notifications :: "(string \<times> string) list"
  queue_redraws :: nat

definition showError :: "string \<Rightarrow> gallery \<Rightarrow> gallery" where
  "showError msg g = g\<lparr>notifications := notifications g @ [(msg, ''error'')]\<rparr>"

definition isValidType :: "file_info \<Rightarrow> bool" where
  "isValidType f \<longleftrightarrow> prefix ''image/'' (file_type f) \<or> prefix ''video/'' (file_type f)"

definition isValidSize :: "file_info \<Rightarrow> bool" where
  "isValidSize f \<longleftrightarrow> file_size f \<le> 500 * 1024 * 1024"

text \<open>The callback of \<^verbatim>\<open>files.filter\<close>: it reports the errors and returns the verdict.\<close>

definition check_file :: "file_info \<Rightarrow> gallery \<Rightarrow> bool \<times> gallery" where
  "check_file f g =
     (let g1 = (if \<not> isValidType f
                then showError (file_name f @ '': Invalid file type'') g else g);
          g2 = (if \<not> isValidSize f
                then showError (file_name f @ '': File too large (max 500MB)'') g1 else g1)
      in (isValidType f \<and> isValidSize f, g2))"

fun filter_files :: "file_info list \<Rightarrow> gallery \<Rightarrow> file_info list \<times> gallery" where
  "filter_files [] g = ([], g)"
| "filter_files (f # fs) g =
     (case check_file f g of
        (keep, g') \<Rightarrow>
          (case filter_files fs g' of
             (validFiles, g'') \<Rightarrow> (if keep then f # validFiles else validFiles, g'')))"

definition handleFileSelection :: "file_info list \<Rightarrow> gallery \<Rightarrow> gallery" where
  "handleFileSelection files g =
     (case filter_files files g of
        (validFiles, g') \<Rightarrow>
          (if length validFiles = 0 then g'
           else g'\<lparr>uploadQueue := uploadQueue g'
                     @ map (\<lambda>f. \<lparr>item_file = f, item_progress = 0, item_status = ''pending''\<rparr>)
                         validFiles,
                   queue_redraws := Suc (queue_redraws g')\<rparr>))"

section \<open>Sample inputs\<close>

text \<open>A host whose network is down, a page of the vault, and responses to cache.\<close>

definition offline_host :: host where
  "offline_host =
     \<lparr>self_origin = ''https://vault.test'', network = (\<lambda>u. None),
      now_iso = ''2024-01-01T00:00:00.000Z''\<rparr>"

definition sample_response :: "nat \<Rightarrow> string \<Rightarrow> response" where
  "sample_response code text = \<lparr>status = code, headers = [], body = Text text\<rparr>"

definition get_request :: "string \<Rightarrow> string \<Rightarrow> string \<Rightarrow> request" where
  "get_request path m d =
     \<lparr>req_method = ''GET'', origin = ''https://vault.test'', pathname = path,
      search = [], mode = m, destination = d\<rparr>"

definition sample_files :: "file_info list" where
  "sample_files =
     [\<lparr>file_name = ''cat.png'', file_type = ''image/png'', file_size = 2048\<rparr>,
      \<lparr>file_name = ''notes.txt'', file_type = ''text/plain'', file_size = 10\<rparr>,
      \<lparr>file_name = ''film.mp4'', file_type = ''video/mp4'', file_size = 524288001\<rparr>,
      \<lparr>file_name = ''clip.mp4'', file_type = ''video/mp4'', file_size = 524288000\<rparr>]"

definition online_host :: host where
  "online_host =
     \<lparr>self_origin = ''https://vault.test'',
      network = (\<lambda>u. Some (sample_response 200 ''body { margin: 0 }'')),
      now_iso = ''2024-01-01T00:00:00.000Z''\<rparr>"

definition sample_parseDate :: "string \<Rightarrow> int option" where
  "sample_parseDate =
     map_of [(''Mon, 01 Jan 2024 00:00:00 GMT'', 1704067200000),
             (''Wed, 03 Jan 2024 00:00:00 GMT'', 1704240000000)]"

definition dated_response :: "string \<Rightarrow> response" where
  "dated_response d = \<lparr>status = 200, headers = [(''Date'', d)], body = Text ''page''\<rparr>"

definition janitor_storage :: cache_storage where
  "janitor_storage =
     [(DYNAMIC_CACHE,
       [(''https://vault.test/a'', dated_response ''Mon, 01 Jan 2024 00:00:00 GMT''),
        (''https://vault.test/b'', dated_response ''Wed, 03 Jan 2024 00:00:00 GMT''),
        (''https://vault.test/c'', sample_response 200 ''undated'')]),
      (MEDIA_CACHE,
       [(''https://vault.test/api/media/1'',
         dated_response ''Mon, 01 Jan 2024 00:00:00 GMT'')])]"

section \<open>The router and the network-only strategy\<close>

lemma prefix_api_media: "prefix ''/api/media/'' p \<Longrightarrow> prefix ''/api/'' p"
  by (auto simp: prefix_def)

lemma media_prefix_goes_to_api:
  "req_method req = ''GET'' \<Longrightarrow> \<not> prefix ''chrome-extension://'' (request_url req) \<Longrightarrow>
   prefix ''/api/media/'' (pathname req) \<Longrightarrow>
   fetch_listener h cs req = Some (handleApiRequest h req)"
  by (simp add: fetch_listener_def prefix_api_media)

text \<open>
  C1, at the input where the code departs from it. A path that starts with
  \<^verbatim>\<open>/api/media/\<close> also starts with \<^verbatim>\<open>/api/\<close>, and the listener tests \<^verbatim>\<open>/api/\<close>
  first. For a GET request for \<^verbatim>\<open>/api/media/7\<close> whose response the media partition
  holds, the listener answers with the network-only handler: the network is fetched, no
  cache is read, and the response is the network's, not the cached one.
\<close>

theorem media_request_is_fetched_from_network:
  "fetch_listener
     \<lparr>self_origin = ''https://vault.test'',
      network = (\<lambda>u. Some (sample_response 200 ''fresh'')),
      now_iso = ''2024-01-01T00:00:00.000Z''\<rparr>
     [(MEDIA_CACHE, [(''https://vault.test/api/media/7'', sample_response 200 ''cached'')])]
     (get_request ''/api/media/7'' ''cors'' ''image'')
   = Some \<lparr>responded = Some (sample_response 200 ''fresh''),
           detached = [],
           effects = [Fetch ''https://vault.test/api/media/7'']\<rparr>"
  by (simp add: fetch_listener_def handleApiRequest_def request_url_def get_request_def)

theorem media_request_is_fetched_from_network_witness:
  "\<exists>out. fetch_listener
            \<lparr>self_origin = ''https://vault.test'',
             network = (\<lambda>u. Some (sample_response 200 ''fresh'')),
             now_iso = ''2024-01-01T00:00:00.000Z''\<rparr>
            [(MEDIA_CACHE,
              [(''https://vault.test/api/media/7'', sample_response 200 ''cached'')])]
            (get_request ''/api/media/7'' ''cors'' ''image'') = Some out
         \<and> list_ex is_fetch (effects out)
         \<and> \<not> list_ex reads_cache (effects out)
         \<and> responded out \<noteq> Some (sample_response 200 ''cached'')"
  using media_request_is_fetched_from_network
  by (simp add: sample_response_def)

text \<open>
  C6: a GET request whose path starts with \<^verbatim>\<open>/api/\<close> is answered by the
  network-only handler. The handler starts no cache write, so the storage is the same
  after it, and it reads no cache; a response of the network is passed on whatever its
  status; when the fetch fails the answer has status 503, the JSON body with
  \<^verbatim>\<open>error\<close>, \<^verbatim>\<open>offline: true\<close> and \<^verbatim>\<open>timestamp\<close>, and the header
  \<^verbatim>\<open>Cache-Control: no-store\<close>.
\<close>

theorem api_requests_bypass_cache:
  "req_method req = ''GET'' \<Longrightarrow> \<not> prefix ''chrome-extension://'' (request_url req) \<Longrightarrow>
   prefix ''/api/'' (pathname req) \<Longrightarrow>
     fetch_listener h cs req = Some (handleApiRequest h req)
   \<and> detached (handleApiRequest h req) = []
   \<and> settle cs (detached (handleApiRequest h req)) = cs
   \<and> \<not> list_ex reads_cache (effects (handleApiRequest h req))
   \<and> (\<forall>resp. network h (request_url req) = Some resp \<longrightarrow>
          responded (handleApiRequest h req) = Some resp)
   \<and> (network h (request_url req) = None \<longrightarrow>
          responded (handleApiRequest h req) =
            Some \<lparr>status = 503,
                  headers = [(''Content-Type'', ''application/json''),
                             (''Cache-Control'', ''no-store'')],
                  body = Stringified (JObject
                    [(''error'', JString ''You are offline''),
                     (''offline'', JBool True),
                     (''timestamp'', JString (now_iso h))])\<rparr>)
   \<and> headers_get [(''Content-Type'', ''application/json''), (''Cache-Control'', ''no-store'')]
         ''Cache-Control'' = Some ''no-store''"
  by (cases "network h (request_url req)")
     (simp_all add: fetch_listener_def handleApiRequest_def settle_def headers_get_def
        to_lower_def)

theorem api_requests_bypass_cache_witness:
  "fetch_listener offline_host
     [(DYNAMIC_CACHE, [(''https://vault.test/api/settings'', sample_response 200 ''old'')])]
     (get_request ''/api/settings'' ''cors'' [])
   = Some \<lparr>responded = Some
              \<lparr>status = 503,
               headers = [(''Content-Type'', ''application/json''),
                          (''Cache-Control'', ''no-store'')],
               body = Stringified (JObject
                 [(''error'', JString ''You are offline''),
                  (''offline'', JBool True),
                  (''timestamp'', JString ''2024-01-01T00:00:00.000Z'')])\<rparr>,
            detached = [],
            effects = [Fetch ''https://vault.test/api/settings'',
                       ConsoleError ''[Service Worker] API request failed:'']\<rparr>"
  using api_requests_bypass_cache
    [of "get_request ''/api/settings'' ''cors'' []" offline_host
      "[(DYNAMIC_CACHE, [(''https://vault.test/api/settings'', sample_response 200 ''old'')])]"]
  by (simp add: request_url_def offline_host_def handleApiRequest_def get_request_def)

section \<open>Activation\<close>

lemma foldl_caches_delete:
  "foldl caches_delete cs ns = filter (\<lambda>e. fst e \<notin> set ns) cs"
proof (induction ns arbitrary: cs)
  case Nil
  show ?case by simp
next
  case (Cons n ns)
  have "foldl caches_delete cs (n # ns) = foldl caches_delete (caches_delete cs n) ns"
    by simp
  also have "\<dots> = filter (\<lambda>e. fst e \<notin> set ns) (caches_delete cs n)"
    by (rule Cons.IH)
  also have "\<dots> = filter (\<lambda>e. fst e \<notin> set (n # ns)) cs"
    by (auto simp: caches_delete_def intro: filter_cong)
  finally show ?case .
qed

lemma storage_activate:
  "storage (activate_listener cs) = filter (\<lambda>e. fst e \<in> set currentCaches) cs"
  by (simp add: activate_listener_def Let_def foldl_caches_delete caches_keys_def
      cong: filter_cong)

lemma map_of_filter_fst:
  "map_of (filter (\<lambda>e. P (fst e)) xs) k = (if P k then map_of xs k else None)"
  by (induction xs) auto

lemma clearCache_empty: "clearCache cs = []"
  by (simp add: clearCache_def foldl_caches_delete caches_keys_def)

text \<open>
  C8: activation keeps exactly the caches whose name is in \<^verbatim>\<open>currentCaches\<close>, in their
  order and with their entries. A name outside the list names no cache afterwards; a name
  in the list names the cache it named before.
\<close>

theorem activate_deletes_exactly_old_caches:
  "storage (activate_listener cs) = filter (\<lambda>e. fst e \<in> set currentCaches) cs
   \<and> (name \<notin> set currentCaches \<longrightarrow>
        name \<notin> set (caches_keys (storage (activate_listener cs))))
   \<and> (name \<in> set currentCaches \<longrightarrow>
        map_of (storage (activate_listener cs)) name = map_of cs name)"
proof -
  have eq: "storage (activate_listener cs) = filter (\<lambda>e. fst e \<in> set currentCaches) cs"
    by (rule storage_activate)
  have gone: "name \<notin> set currentCaches \<longrightarrow>
        name \<notin> set (caches_keys (storage (activate_listener cs)))"
    unfolding eq caches_keys_def by auto
  have kept: "name \<in> set currentCaches \<longrightarrow>
        map_of (storage (activate_listener cs)) name = map_of cs name"
    unfolding eq by (simp add: map_of_filter_fst [where P = "\<lambda>n. n \<in> set currentCaches"])
  from eq gone kept show ?thesis by blast
qed

theorem activate_deletes_exactly_old_caches_witness:
  "''vantavault-static-v1.0'' \<notin> set currentCaches
   \<and> ''vantavault-static-v1.0'' \<notin> set (caches_keys (storage (activate_listener
        [(''vantavault-static-v1.0'', [(''https://vault.test/'', sample_response 200 ''v1'')]),
         (STATIC_CACHE, [(''https://vault.test/'', sample_response 200 ''v2'')])])))
   \<and> STATIC_CACHE \<in> set currentCaches
   \<and> map_of (storage (activate_listener
        [(''vantavault-static-v1.0'', [(''https://vault.test/'', sample_response 200 ''v1'')]),
         (STATIC_CACHE, [(''https://vault.test/'', sample_response 200 ''v2'')])])) STATIC_CACHE
      = Some [(''https://vault.test/'', sample_response 200 ''v2'')]"
  using
    activate_deletes_exactly_old_caches
      [of "[(''vantavault-static-v1.0'', [(''https://vault.test/'', sample_response 200 ''v1'')]),
            (STATIC_CACHE, [(''https://vault.test/'', sample_response 200 ''v2'')])]"
          "''vantavault-static-v1.0''"]
    activate_deletes_exactly_old_caches
      [of "[(''vantavault-static-v1.0'', [(''https://vault.test/'', sample_response 200 ''v1'')]),
            (STATIC_CACHE, [(''https://vault.test/'', sample_response 200 ''v2'')])]"
          STATIC_CACHE]
  by (simp add: currentCaches_def CACHE_NAME_def STATIC_CACHE_def DYNAMIC_CACHE_def
      MEDIA_CACHE_def caches_keys_def)

section \<open>Lemmas about the cache storage\<close>

lemma partition_of_store_same [simp]: "partition_of (caches_store cs n c) n = c"
  by (induction cs n c rule: caches_store.induct) (auto simp: partition_of_def)

lemma partition_of_store_other [simp]:
  "m \<noteq> n \<Longrightarrow> partition_of (caches_store cs n c) m = partition_of cs m"
  by (induction cs n c rule: caches_store.induct) (auto simp: partition_of_def)

lemma snd_caches_open [simp]: "snd (caches_open cs n) = partition_of cs n"
  by (simp add: caches_open_def partition_of_def split: option.splits)

lemma partition_of_fst_caches_open [simp]:
  "partition_of (fst (caches_open cs n)) m = partition_of cs m"
  by (auto simp: caches_open_def partition_of_def split: option.splits if_splits)

lemma partition_of_run_task_same:
  "partition_of (run_task cs (OpenPut n u r)) n = cache_put (partition_of cs n) u r"
  by (simp add: split_beta)

lemma partition_of_run_task_other:
  "m \<noteq> n \<Longrightarrow> partition_of (run_task cs (OpenPut n u r)) m = partition_of cs m"
  by (simp add: split_beta)

lemma cache_match_put_same [simp]: "cache_match (cache_put c u r) u = Some r"
  by (simp add: cache_match_def cache_put_def cache_delete_def map_add_def
      map_of_filter_fst [where P = "\<lambda>k. k \<noteq> u"])

lemma caches_match_hit:
  "cache_match (partition_of cs n) u = Some r \<Longrightarrow> \<exists>r'. caches_match cs u = Some r'"
proof (induction cs)
  case Nil
  then show ?case by (simp add: partition_of_def cache_match_def)
next
  case (Cons e cs)
  obtain m c where e: "e = (m, c)" by (cases e)
  show ?case
  proof (cases "cache_match c u")
    case (Some r0)
    then show ?thesis by (simp add: e)
  next
    case None
    with Cons.prems have "cache_match (partition_of cs n) u = Some r"
      by (auto simp: e partition_of_def split: if_splits)
    with Cons.IH None show ?thesis by (simp add: e)
  qed
qed

section \<open>Which responses the handlers write\<close>

lemma media_writes_only_200:
  "OpenPut n u r \<in> set (detached (handleMediaRequest h cs req)) \<Longrightarrow> status r = 200"
  by (auto simp: handleMediaRequest_def split: option.splits if_splits)

lemma fetchAndCache_writes_only_200:
  "OpenPut n u r \<in> set (detached (fetchAndCache h req)) \<Longrightarrow> status r = 200"
  by (auto simp: fetchAndCache_def split: option.splits if_splits)

lemma static_writes_only_200:
  "OpenPut n u r \<in> set (detached (handleStaticRequest h cs req)) \<Longrightarrow> status r = 200"
  by (auto simp: handleStaticRequest_def split: option.splits
      dest: fetchAndCache_writes_only_200)

lemma page_writes_any_status:
  "network h (request_url req) = Some resp \<Longrightarrow>
   detached (handlePageRequest h cs req) = [OpenPut DYNAMIC_CACHE (request_url req) resp]"
  by (simp add: handlePageRequest_def)

text \<open>
  C3, at the input where the code departs from it. The media handler and
  \<^verbatim>\<open>fetchAndCache\<close> write a response only when its status is 200 (the three lemmas
  above); the page handler writes whatever the network returns. For a navigation to
  \<^verbatim>\<open>/missing\<close> that the network answers with status 404, the handler starts a write of
  the 404 response into the dynamic partition, and the partition holds it once the write
  has run.
\<close>

theorem page_handler_caches_404:
  "fetch_listener
     \<lparr>self_origin = ''https://vault.test'',
      network = (\<lambda>u. Some (sample_response 404 ''Not Found'')),
      now_iso = ''2024-01-01T00:00:00.000Z''\<rparr>
     []
     (get_request ''/missing'' ''navigate'' ''document'')
   = Some \<lparr>responded = Some (sample_response 404 ''Not Found''),
           detached = [OpenPut DYNAMIC_CACHE ''https://vault.test/missing''
                         (sample_response 404 ''Not Found'')],
           effects = [Fetch ''https://vault.test/missing'']\<rparr>
   \<and> settle [] [OpenPut DYNAMIC_CACHE ''https://vault.test/missing''
                   (sample_response 404 ''Not Found'')]
     = [(DYNAMIC_CACHE,
         [(''https://vault.test/missing'', sample_response 404 ''Not Found'')])]"
  by (simp add: fetch_listener_def handlePageRequest_def request_url_def get_request_def
      settle_def caches_open_def cache_put_def cache_delete_def)

theorem page_handler_caches_404_witness:
  "\<exists>out. fetch_listener
            \<lparr>self_origin = ''https://vault.test'',
             network = (\<lambda>u. Some (sample_response 404 ''Not Found'')),
             now_iso = ''2024-01-01T00:00:00.000Z''\<rparr>
            []
            (get_request ''/missing'' ''navigate'' ''document'') = Some out
         \<and> list_ex (\<lambda>t. case t of OpenPut n u r \<Rightarrow> status r \<noteq> 200) (detached out)
         \<and> cache_match (partition_of (settle [] (detached out)) DYNAMIC_CACHE)
              ''https://vault.test/missing'' = Some (sample_response 404 ''Not Found'')"
  using page_handler_caches_404
  by (simp add: sample_response_def partition_of_def cache_match_def)

section \<open>Install with a failing fetch\<close>

lemma fetch_all_fails:
  "p \<in> set ps \<Longrightarrow> network h (self_origin h @ p) = None \<Longrightarrow> fetch_all h ps = None"
  by (induction ps) (auto split: option.splits)

lemma install_listener_failed:
  assumes "fetch_all h STATIC_ASSETS = None"
  shows "install_listener h cs =
     \<lparr>waitUntil = Fulfilled,
      storage = fst (caches_open cs STATIC_CACHE),
      events = [ConsoleLog ''[Service Worker] Installing VantaVault v2.0...'',
                ConsoleLog ''[Service Worker] Caching static assets'']
               @ map (\<lambda>p. Fetch (self_origin h @ p)) STATIC_ASSETS
               @ [ConsoleError ''[Service Worker] Cache installation failed:'']\<rparr>"
  using assms by (simp add: install_listener_def cache_addAll_def split_beta)

text \<open>
  C2, as amended: when the fetch of a path of the install manifest fails, the install
  listener writes no entry to any partition, logs the failure and does not call
  \<^verbatim>\<open>skipWaiting\<close>; its \<^verbatim>\<open>catch\<close> absorbs the error, so the promise it hands to
  \<^verbatim>\<open>waitUntil\<close> is fulfilled and the listener does not fail the install attempt.
\<close>

theorem install_failure_is_logged_and_absorbed:
  "p \<in> set STATIC_ASSETS \<Longrightarrow> network h (self_origin h @ p) = None \<Longrightarrow>
     waitUntil (install_listener h cs) = Fulfilled
   \<and> list_ex (\<lambda>e. e = ConsoleError ''[Service Worker] Cache installation failed:'')
        (events (install_listener h cs))
   \<and> \<not> list_ex (\<lambda>e. e = SkipWaiting) (events (install_listener h cs))
   \<and> (\<forall>name. partition_of (storage (install_listener h cs)) name = partition_of cs name)"
proof -
  assume "p \<in> set STATIC_ASSETS" and "network h (self_origin h @ p) = None"
  then have "fetch_all h STATIC_ASSETS = None"
    by (rule fetch_all_fails)
  then have eq: "install_listener h cs =
     \<lparr>waitUntil = Fulfilled,
      storage = fst (caches_open cs STATIC_CACHE),
      events = [ConsoleLog ''[Service Worker] Installing VantaVault v2.0...'',
                ConsoleLog ''[Service Worker] Caching static assets'']
               @ map (\<lambda>p. Fetch (self_origin h @ p)) STATIC_ASSETS
               @ [ConsoleError ''[Service Worker] Cache installation failed:'']\<rparr>"
    by (rule install_listener_failed)
  show ?thesis
    unfolding eq by (simp add: list_ex_iff image_iff)
qed

theorem install_failure_is_logged_and_absorbed_witness:
  "''/manifest.json'' \<in> set STATIC_ASSETS
   \<and> network offline_host (self_origin offline_host @ ''/manifest.json'') = None
   \<and> waitUntil (install_listener offline_host []) = Fulfilled
   \<and> partition_of (storage (install_listener offline_host [])) STATIC_CACHE = []"
  using install_failure_is_logged_and_absorbed [of "''/manifest.json''" offline_host "[]"]
  by (simp add: STATIC_ASSETS_def offline_host_def partition_of_def)

text \<open>
  C2 as stated fails: with the network down the fetch of \<^verbatim>\<open>/manifest.json\<close> fails, and
  the promise of the install listener is fulfilled, not rejected.
\<close>

theorem install_not_failed_by_fetch_failure:
  "network offline_host (self_origin offline_host @ ''/manifest.json'') = None
   \<and> waitUntil (install_listener offline_host []) = Fulfilled
   \<and> waitUntil (install_listener offline_host []) \<noteq> Rejected"
  by (simp add: offline_host_def install_listener_def cache_addAll_def STATIC_ASSETS_def
      caches_open_def)

section \<open>Page navigation while the network is down\<close>

lemma page_cached_copy_returned:
  "network h (request_url req) = None \<Longrightarrow> caches_match cs (request_url req) = Some cached \<Longrightarrow>
   responded (handlePageRequest h cs req) = Some cached"
  by (simp add: handlePageRequest_def)

lemma page_falls_back_to_offline_lookup:
  "network h (request_url req) = None \<Longrightarrow> caches_match cs (request_url req) = None \<Longrightarrow>
   responded (handlePageRequest h cs req) = caches_match cs (self_origin h @ ''/offline'')"
  by (simp add: handlePageRequest_def)

text \<open>
  C7, at the input where the code departs from it. The offline page was installed and
  \<^verbatim>\<open>CLEAR_CACHE\<close> then deleted every cache. A navigation to \<^verbatim>\<open>/gallery\<close> with the
  network down is answered by the page handler, which finds no cached copy, looks up
  \<^verbatim>\<open>/offline\<close>, finds nothing there either, and settles \<^verbatim>\<open>respondWith\<close> with no
  response: the body returned is not the offline page.
\<close>

theorem no_offline_page_after_clear_cache:
  "fetch_listener offline_host
     (clearCache (storage (install_offline_listener ''<html>Offline</html>'' offline_host [])))
     (get_request ''/gallery'' ''navigate'' ''document'')
   = Some \<lparr>responded = None, detached = [],
           effects = [Fetch ''https://vault.test/gallery'',
                      ConsoleError ''[Service Worker] Page fetch failed:'',
                      CachesMatch ''https://vault.test/gallery'',
                      CachesMatch ''https://vault.test/offline'']\<rparr>"
  by (simp add: clearCache_empty fetch_listener_def handlePageRequest_def get_request_def
      request_url_def offline_host_def)

theorem no_offline_page_after_clear_cache_witness:
  "\<exists>out. fetch_listener offline_host
            (clearCache
              (storage (install_offline_listener ''<html>Offline</html>'' offline_host [])))
            (get_request ''/gallery'' ''navigate'' ''document'') = Some out
         \<and> responded out = None
         \<and> responded out \<noteq> Some (offline_response ''<html>Offline</html>'')
         \<and> list_ex (\<lambda>e. e = CachesMatch ''https://vault.test/offline'') (effects out)"
  using no_offline_page_after_clear_cache
  by simp

section \<open>Static assets\<close>

lemma fetchAndCache_200:
  "network h (request_url req) = Some resp \<Longrightarrow> status resp = 200 \<Longrightarrow>
   fetchAndCache h req =
     \<lparr>responded = Some resp,
      detached = [OpenPut DYNAMIC_CACHE (request_url req) resp],
      effects = [Fetch (request_url req)]\<rparr>"
  by (simp add: fetchAndCache_def)

lemma static_hit:
  "caches_match cs (request_url req) = Some cached \<Longrightarrow>
   responded (handleStaticRequest h cs req) = Some cached"
  by (simp add: handleStaticRequest_def)

lemma static_detached:
  "detached (handleStaticRequest h cs req) = detached (fetchAndCache h req)"
  by (simp add: handleStaticRequest_def split: option.splits)

lemma settle_snoc: "settle cs (ts @ [t]) = run_task (settle cs ts) t"
  by (simp add: settle_def)

text \<open>
  C4, as amended: a GET request that is neither under \<^verbatim>\<open>/api/\<close> nor a navigation, and
  whose fetch succeeds with status 200, is answered by the cache-first handler, which
  starts one detached write of that response into the dynamic partition and, when no cache
  held the key, returns the response. Once the pending writes have run the dynamic
  partition holds the response under the request's key, and a later request for the same
  key is answered from the cache whatever the network does then.
\<close>

theorem static_asset_cached_once_write_ran:
  "req_method req = ''GET'' \<Longrightarrow> \<not> prefix ''chrome-extension://'' (request_url req) \<Longrightarrow>
   \<not> prefix ''/api/'' (pathname req) \<Longrightarrow> mode req \<noteq> ''navigate'' \<Longrightarrow>
   network h (request_url req) = Some resp \<Longrightarrow> status resp = 200 \<Longrightarrow>
     respond h w req =
       (Some (handleStaticRequest h (store w) req),
        w\<lparr>pending := pending w @ [OpenPut DYNAMIC_CACHE (request_url req) resp]\<rparr>)
   \<and> (caches_match (store w) (request_url req) = None \<longrightarrow>
          responded (handleStaticRequest h (store w) req) = Some resp)
   \<and> cache_match
        (partition_of (store (run_pending (snd (respond h w req)))) DYNAMIC_CACHE)
        (request_url req) = Some resp
   \<and> (\<forall>h'. \<exists>cached.
          caches_match (store (run_pending (snd (respond h w req)))) (request_url req)
            = Some cached
          \<and> fst (respond h' (run_pending (snd (respond h w req))) req)
            = Some (handleStaticRequest h' (store (run_pending (snd (respond h w req)))) req)
          \<and> responded (handleStaticRequest h'
               (store (run_pending (snd (respond h w req)))) req) = Some cached)"
proof -
  assume get: "req_method req = ''GET''"
    and ext: "\<not> prefix ''chrome-extension://'' (request_url req)"
    and api: "\<not> prefix ''/api/'' (pathname req)"
    and nav: "mode req \<noteq> ''navigate''"
    and net: "network h (request_url req) = Some resp"
    and ok: "status resp = 200"
  let ?w' = "run_pending (snd (respond h w req))"
  from api have media: "\<not> prefix ''/api/media/'' (pathname req)"
    using prefix_api_media by blast
  have route: "\<And>h' cs. fetch_listener h' cs req = Some (handleStaticRequest h' cs req)"
    using get ext api media nav by (simp add: fetch_listener_def)
  have fc: "fetchAndCache h req =
     \<lparr>responded = Some resp,
      detached = [OpenPut DYNAMIC_CACHE (request_url req) resp],
      effects = [Fetch (request_url req)]\<rparr>"
    using net ok by (rule fetchAndCache_200)
  have det: "detached (handleStaticRequest h (store w) req)
             = [OpenPut DYNAMIC_CACHE (request_url req) resp]"
    by (simp add: static_detached fc)
  have resp: "respond h w req =
       (Some (handleStaticRequest h (store w) req),
        w\<lparr>pending := pending w @ [OpenPut DYNAMIC_CACHE (request_url req) resp]\<rparr>)"
    by (simp add: respond_def route det)
  have fresh: "caches_match (store w) (request_url req) = None \<longrightarrow>
          responded (handleStaticRequest h (store w) req) = Some resp"
    by (simp add: handleStaticRequest_def fc)
  have st: "store ?w' = run_task (settle (store w) (pending w))
                          (OpenPut DYNAMIC_CACHE (request_url req) resp)"
    by (simp add: resp run_pending_def settle_snoc)
  have stored: "cache_match (partition_of (store ?w') DYNAMIC_CACHE) (request_url req)
                = Some resp"
    unfolding st by (simp add: split_beta)
  have again: "\<forall>h'. \<exists>cached. caches_match (store ?w') (request_url req) = Some cached
          \<and> fst (respond h' ?w' req) = Some (handleStaticRequest h' (store ?w') req)
          \<and> responded (handleStaticRequest h' (store ?w') req) = Some cached"
  proof
    fix h'
    from caches_match_hit [OF stored]
    obtain cached where c: "caches_match (store ?w') (request_url req) = Some cached" ..
    then have r: "responded (handleStaticRequest h' (store ?w') req) = Some cached"
      by (rule static_hit)
    have f: "fst (respond h' ?w' req) = Some (handleStaticRequest h' (store ?w') req)"
      by (simp add: respond_def route)
    from c f r show "\<exists>cached. caches_match (store ?w') (request_url req) = Some cached
          \<and> fst (respond h' ?w' req) = Some (handleStaticRequest h' (store ?w') req)
          \<and> responded (handleStaticRequest h' (store ?w') req) = Some cached"
      by blast
  qed
  show ?thesis
    by (intro conjI) (fact resp, fact fresh, fact stored, fact again)
qed

theorem static_asset_cached_once_write_ran_witness:
  "store (run_pending (snd (respond online_host \<lparr>store = [], pending = []\<rparr>
       (get_request ''/static/css/main.css'' ''no-cors'' ''style''))))
     = [(DYNAMIC_CACHE,
         [(''https://vault.test/static/css/main.css'',
           sample_response 200 ''body { margin: 0 }'')])]
   \<and> responded (handleStaticRequest offline_host
        (store (run_pending (snd (respond online_host \<lparr>store = [], pending = []\<rparr>
           (get_request ''/static/css/main.css'' ''no-cors'' ''style'')))))
        (get_request ''/static/css/main.css'' ''no-cors'' ''style''))
     = Some (sample_response 200 ''body { margin: 0 }'')"
  using static_asset_cached_once_write_ran
    [of "get_request ''/static/css/main.css'' ''no-cors'' ''style''" online_host
        "sample_response 200 ''body { margin: 0 }''" "\<lparr>store = [], pending = []\<rparr>"]
  by (simp add: get_request_def request_url_def online_host_def offline_host_def
      sample_response_def handleStaticRequest_def fetchAndCache_def settle_def
      caches_open_def cache_put_def cache_delete_def cache_match_def run_pending_def)

text \<open>
  C4 as stated fails: on an empty storage the response is settled while the write into
  the dynamic partition is still pending; the dynamic partition holds no entry for the key
  at that moment.
\<close>

theorem static_write_pending_when_response_resolves:
  "respond online_host \<lparr>store = [], pending = []\<rparr>
     (get_request ''/static/css/main.css'' ''no-cors'' ''style'')
   = (Some \<lparr>responded = Some (sample_response 200 ''body { margin: 0 }''),
            detached = [OpenPut DYNAMIC_CACHE ''https://vault.test/static/css/main.css''
                          (sample_response 200 ''body { margin: 0 }'')],
            effects = [CachesMatch ''https://vault.test/static/css/main.css'',
                       Fetch ''https://vault.test/static/css/main.css'']\<rparr>,
      \<lparr>store = [],
       pending = [OpenPut DYNAMIC_CACHE ''https://vault.test/static/css/main.css''
                    (sample_response 200 ''body { margin: 0 }'')]\<rparr>)
   \<and> cache_match
        (partition_of (store (snd (respond online_host \<lparr>store = [], pending = []\<rparr>
           (get_request ''/static/css/main.css'' ''no-cors'' ''style'')))) DYNAMIC_CACHE)
        ''https://vault.test/static/css/main.css'' = None"
  by (simp add: respond_def fetch_listener_def get_request_def request_url_def
      online_host_def sample_response_def handleStaticRequest_def fetchAndCache_def
      partition_of_def cache_match_def)

section \<open>The sync listener\<close>

text \<open>
  With the queue helpers as they stand, a sync trigger finds both queues empty: neither
  loop body runs, no message is posted to any client, and only the console changes.
\<close>

lemma sync_listener_processes_no_item:
  "posted (sync_listener clients tag s) = posted s"
  by (simp add: sync_listener_def syncPendingUploads_def syncSettings_def
      getPendingUploads_def getOfflineSettings_def console_add_def)

lemma sync_uploads_console:
  "console (sync_listener clients ''sync-uploads'' s) =
     console s @ [ConsoleLog ''[Service Worker] Background sync: sync-uploads'',
                  ConsoleLog ''[Service Worker] Syncing pending uploads...'']"
  by (simp add: sync_listener_def syncPendingUploads_def getPendingUploads_def
      console_add_def)

lemma sync_settings_console:
  "console (sync_listener clients ''sync-settings'' s) =
     console s @ [ConsoleLog ''[Service Worker] Background sync: sync-settings'',
                  ConsoleLog ''[Service Worker] Syncing settings...'']"
  by (simp add: sync_listener_def syncSettings_def getOfflineSettings_def console_add_def)

section \<open>The cache cleanup\<close>

lemma cleanup_step:
  "(case cache_match c k of
      None \<Rightarrow> c
    | Some resp \<Rightarrow>
        (case headers_get (headers resp) ''date'' of
           None \<Rightarrow> c
         | Some dateHeader \<Rightarrow>
             (if dateHeader = [] then c
              else (case parseDate dateHeader of
                      None \<Rightarrow> c
                    | Some responseDate \<Rightarrow>
                        (if responseDate < threshold then cache_delete c k else c)))))
   = (case cache_match c k of
        None \<Rightarrow> c
      | Some resp \<Rightarrow> if older_than parseDate threshold resp then cache_delete c k else c)"
  by (simp add: older_than_def split: option.splits)

lemma cleanup_loop_filter:
  "distinct (map fst c) \<Longrightarrow>
   cleanup_loop parseDate threshold ks c =
     filter (\<lambda>e. \<not> (fst e \<in> set ks \<and> older_than parseDate threshold (snd e))) c"
proof (induction ks arbitrary: c)
  case Nil
  show ?case by simp
next
  case (Cons k ks)
  let ?c' = "case cache_match c k of
        None \<Rightarrow> c
      | Some resp \<Rightarrow> if older_than parseDate threshold resp then cache_delete c k else c"
  have d': "distinct (map fst ?c')"
    using Cons.prems by (auto simp: cache_delete_def distinct_map_filter split: option.splits)
  have step: "cleanup_loop parseDate threshold (k # ks) c
              = cleanup_loop parseDate threshold ks ?c'"
    by (simp only: cleanup_loop.simps cleanup_step)
  have "cleanup_loop parseDate threshold ks ?c'
        = filter (\<lambda>e. \<not> (fst e \<in> set ks \<and> older_than parseDate threshold (snd e))) ?c'"
    using d' by (rule Cons.IH)
  also have "\<dots> = filter (\<lambda>e. \<not> (fst e \<in> set (k # ks)
                                   \<and> older_than parseDate threshold (snd e))) c"
  proof (cases "cache_match c k")
    case None
    then have "\<forall>e \<in> set c. fst e \<noteq> k"
      by (auto simp: cache_match_def map_of_eq_None_iff)
    with None show ?thesis by (auto intro: filter_cong)
  next
    case (Some resp)
    have only: "\<forall>e \<in> set c. fst e = k \<longrightarrow> snd e = resp"
    proof (intro ballI impI)
      fix e assume e: "e \<in> set c" and k: "fst e = k"
      from e have "(fst e, snd e) \<in> set c" by simp
      with Cons.prems have "map_of c (fst e) = Some (snd e)"
        by (rule map_of_is_SomeI)
      with Some k show "snd e = resp"
        by (simp add: cache_match_def)
    qed
    show ?thesis
    proof (cases "older_than parseDate threshold resp")
      case True
      with Some only show ?thesis
        by (auto simp: cache_delete_def intro: filter_cong)
    next
      case False
      with Some only show ?thesis
        by (auto intro: filter_cong)
    qed
  qed
  finally show ?case using step by simp
qed

lemma cleanup_all_keys:
  "distinct (map fst c) \<Longrightarrow>
   cleanup_loop parseDate threshold (cache_keys c) c =
     filter (\<lambda>e. \<not> older_than parseDate threshold (snd e)) c"
  by (simp add: cleanup_loop_filter cache_keys_def cong: filter_cong)

lemma dynamic_neq_media: "DYNAMIC_CACHE \<noteq> MEDIA_CACHE"
  by (simp add: DYNAMIC_CACHE_def MEDIA_CACHE_def)

lemma cleanupCache_partitions:
  "partition_of (storage (cleanupCache parseDate now1 now2 cs)) DYNAMIC_CACHE =
     cleanup_loop parseDate (now1 - 604800000)
       (cache_keys (partition_of cs DYNAMIC_CACHE)) (partition_of cs DYNAMIC_CACHE)"
  "partition_of (storage (cleanupCache parseDate now1 now2 cs)) MEDIA_CACHE =
     cleanup_loop parseDate (now2 - 2592000000)
       (cache_keys (partition_of cs MEDIA_CACHE)) (partition_of cs MEDIA_CACHE)"
  using dynamic_neq_media
  by (simp_all add: cleanupCache_def split_beta Let_def)

text \<open>
  C9: with keys that are unique in each partition, a cleanup pass keeps in the dynamic
  partition exactly the entries that are not older than seven days at the first clock
  reading, and in the media partition exactly those not older than thirty days at the
  second; every entry whose response has no \<^verbatim>\<open>date\<close> header is still in its
  partition after the pass.
\<close>

theorem janitor_deletes_exactly_stale_entries:
  "distinct (map fst (partition_of cs DYNAMIC_CACHE)) \<Longrightarrow>
   distinct (map fst (partition_of cs MEDIA_CACHE)) \<Longrightarrow>
     partition_of (storage (cleanupCache parseDate now1 now2 cs)) DYNAMIC_CACHE
       = filter (\<lambda>e. \<not> older_than parseDate (now1 - 7 * 24 * 60 * 60 * 1000) (snd e))
           (partition_of cs DYNAMIC_CACHE)
   \<and> partition_of (storage (cleanupCache parseDate now1 now2 cs)) MEDIA_CACHE
       = filter (\<lambda>e. \<not> older_than parseDate (now2 - 30 * 24 * 60 * 60 * 1000) (snd e))
           (partition_of cs MEDIA_CACHE)
   \<and> (\<forall>e \<in> set (partition_of cs DYNAMIC_CACHE).
         headers_get (headers (snd e)) ''date'' = None \<longrightarrow>
         e \<in> set (partition_of (storage (cleanupCache parseDate now1 now2 cs)) DYNAMIC_CACHE))
   \<and> (\<forall>e \<in> set (partition_of cs MEDIA_CACHE).
         headers_get (headers (snd e)) ''date'' = None \<longrightarrow>
         e \<in> set (partition_of (storage (cleanupCache parseDate now1 now2 cs)) MEDIA_CACHE))"
  by (simp add: cleanupCache_partitions cleanup_all_keys older_than_def)

theorem janitor_deletes_exactly_stale_entries_witness:
  "partition_of (storage (cleanupCache sample_parseDate 1704758400000 1704758400000
      janitor_storage)) DYNAMIC_CACHE
     = [(''https://vault.test/b'', dated_response ''Wed, 03 Jan 2024 00:00:00 GMT''),
        (''https://vault.test/c'', sample_response 200 ''undated'')]
   \<and> partition_of (storage (cleanupCache sample_parseDate 1704758400000 1704758400000
      janitor_storage)) MEDIA_CACHE
     = [(''https://vault.test/api/media/1'',
         dated_response ''Mon, 01 Jan 2024 00:00:00 GMT'')]"
  using janitor_deletes_exactly_stale_entries
    [of janitor_storage sample_parseDate 1704758400000 1704758400000]
  by (simp add: janitor_storage_def partition_of_def DYNAMIC_CACHE_def MEDIA_CACHE_def
      older_than_def headers_get_def to_lower_def dated_response_def sample_response_def
      sample_parseDate_def)

section \<open>File selection\<close>

lemma check_file_eq:
  "check_file f g =
     (isValidType f \<and> isValidSize f,
      g\<lparr>notifications := notifications g
           @ (if \<not> isValidType f then [(file_name f @ '': Invalid file type'', ''error'')] else [])
           @ (if \<not> isValidSize f
              then [(file_name f @ '': File too large (max 500MB)'', ''error'')] else [])\<rparr>)"
  by (simp add: check_file_def showError_def Let_def)

lemma filter_files_eq:
  "filter_files fs g =
     (filter (\<lambda>f. isValidType f \<and> isValidSize f) fs,
      g\<lparr>notifications := notifications g @ concat (map (\<lambda>f.
          (if \<not> isValidType f then [(file_name f @ '': Invalid file type'', ''error'')] else [])
          @ (if \<not> isValidSize f
             then [(file_name f @ '': File too large (max 500MB)'', ''error'')] else [])) fs)\<rparr>)"
proof (induction fs arbitrary: g)
  case Nil
  show ?case by simp
next
  case (Cons f fs)
  show ?case
    by (simp add: check_file_eq Cons.IH)
qed

text \<open>
  C10: \<^verbatim>\<open>handleFileSelection\<close> appends to the upload queue exactly the files whose type
  starts with \<^verbatim>\<open>image/\<close> or \<^verbatim>\<open>video/\<close> and whose size is at most 500 * 1024 * 1024
  bytes, in their order, each with progress 0 and status \<^verbatim>\<open>pending\<close>; every other
  file is not enqueued and an error notification naming it is shown.
\<close>

theorem file_selection_enqueues_valid_files:
  "uploadQueue (handleFileSelection files g) =
     uploadQueue g
     @ map (\<lambda>f. \<lparr>item_file = f, item_progress = 0, item_status = ''pending''\<rparr>)
         (filter (\<lambda>f. isValidType f \<and> isValidSize f) files)
   \<and> notifications (handleFileSelection files g) =
       notifications g @ concat (map (\<lambda>f.
          (if \<not> isValidType f then [(file_name f @ '': Invalid file type'', ''error'')] else [])
          @ (if \<not> isValidSize f
             then [(file_name f @ '': File too large (max 500MB)'', ''error'')] else [])) files)
   \<and> (\<forall>f \<in> set files. \<not> (isValidType f \<and> isValidSize f) \<longrightarrow>
         (file_name f @ '': Invalid file type'', ''error'')
            \<in> set (notifications (handleFileSelection files g))
         \<or> (file_name f @ '': File too large (max 500MB)'', ''error'')
            \<in> set (notifications (handleFileSelection files g)))
   \<and> (isValidType f \<longleftrightarrow> prefix ''image/'' (file_type f) \<or> prefix ''video/'' (file_type f))
   \<and> (isValidSize f \<longleftrightarrow> file_size f \<le> 500 * 1024 * 1024)"
proof -
  have q: "uploadQueue (handleFileSelection files g) =
     uploadQueue g
     @ map (\<lambda>f. \<lparr>item_file = f, item_progress = 0, item_status = ''pending''\<rparr>)
         (filter (\<lambda>f. isValidType f \<and> isValidSize f) files)"
    by (simp add: handleFileSelection_def filter_files_eq)
  have n: "notifications (handleFileSelection files g) =
       notifications g @ concat (map (\<lambda>f.
          (if \<not> isValidType f then [(file_name f @ '': Invalid file type'', ''error'')] else [])
          @ (if \<not> isValidSize f
             then [(file_name f @ '': File too large (max 500MB)'', ''error'')] else [])) files)"
    by (simp add: handleFileSelection_def filter_files_eq)
  have r: "\<forall>f \<in> set files. \<not> (isValidType f \<and> isValidSize f) \<longrightarrow>
         (file_name f @ '': Invalid file type'', ''error'')
            \<in> set (notifications (handleFileSelection files g))
         \<or> (file_name f @ '': File too large (max 500MB)'', ''error'')
            \<in> set (notifications (handleFileSelection files g))"
    unfolding n by auto
  have t: "isValidType f \<longleftrightarrow> prefix ''image/'' (file_type f) \<or> prefix ''video/'' (file_type f)"
    by (simp add: isValidType_def)
  have z: "isValidSize f \<longleftrightarrow> file_size f \<le> 500 * 1024 * 1024"
    by (simp add: isValidSize_def)
  show ?thesis
    by (intro conjI) (fact q, fact n, fact r, fact t, fact z)
qed

theorem file_selection_enqueues_valid_files_witness:
  "uploadQueue (handleFileSelection sample_files
      \<lparr>uploadQueue = [], notifications = [], queue_redraws = 0\<rparr>) =
     [\<lparr>item_file = \<lparr>file_name = ''cat.png'', file_type = ''image/png'', file_size = 2048\<rparr>,
       item_progress = 0, item_status = ''pending''\<rparr>,
      \<lparr>item_file = \<lparr>file_name = ''clip.mp4'', file_type = ''video/mp4'', file_size = 524288000\<rparr>,
       item_progress = 0, item_status = ''pending''\<rparr>]
   \<and> notifications (handleFileSelection sample_files
      \<lparr>uploadQueue = [], notifications = [], queue_redraws = 0\<rparr>) =
     [(''notes.txt: Invalid file type'', ''error''),
      (''film.mp4: File too large (max 500MB)'', ''error'')]"
  using file_selection_enqueues_valid_files
    [of sample_files "\<lparr>uploadQueue = [], notifications = [], queue_redraws = 0\<rparr>"]
  by (simp add: sample_files_def isValidType_def isValidSize_def)

end
